theory Spec2Isabelle
  imports Main "HOL-Library.Sublist"
begin

section \<open>JavaScript values\<close>

text \<open>
  The values that flow through the hook and the list filter. \<open>JNoModelError\<close> is an
  instance of the class \<open>NoModelError\<close> (imported from \<open>k8s-watcher\<close>, built with
  \<open>new NoModelError()\<close>, no arguments).
\<close>

datatype jsval =
    JUndefined
  | JNull
  | JBool bool
  | JNum int
  | JStr string
  | JArr "jsval list"
  | JObj "(string \<times> jsval) list"
  | JNoModelError

text \<open>JavaScript truthiness, as the operators \<open>!\<close>, \<open>&&\<close> and \<open>? :\<close> read a value.\<close>

fun truthy :: "jsval \<Rightarrow> bool" where
  "truthy JUndefined = False"
| "truthy JNull = False"
| "truthy (JBool b) = b"
| "truthy (JNum n) = (n \<noteq> 0)"
| "truthy (JStr s) = (s \<noteq> [])"
| "truthy (JArr xs) = True"
| "truthy (JObj kvs) = True"
| "truthy JNoModelError = True"

section \<open>The resource watch hook: data\<close>

text \<open>
  \<open>WatchK8sResource\<close> (declared in \<open>watch-resource-types\<close>, not part of the sources):
  the fields the specification lists for a resource descriptor. A field the caller left
  out reads as \<open>undefined\<close>: \<open>None\<close> for the optional ones, and \<open>False\<close> for
  \<open>isList\<close>, which the hook only ever tests for truthiness.
\<close>

record watch_resource =
  kind :: string
  groupVersionKind :: "(string \<times> string \<times> string) option"
  isList :: bool
  namespace :: "string option"
  name :: "string option"

definition NOT_A_VALUE :: string where
  "NOT_A_VALUE = ''__not-a-value__''"

text \<open>The object literal \<open>{ kind: NOT_A_VALUE }\<close>.\<close>

definition fallback_resource :: watch_resource where
  "fallback_resource =
     \<lparr>kind = NOT_A_VALUE, groupVersionKind = None, isList = False,
      namespace = None, name = None\<rparr>"

text \<open>\<open>const withFallback = initResource || { kind: NOT_A_VALUE }\<close>\<close>

definition withFallback :: "watch_resource option \<Rightarrow> watch_resource" where
  "withFallback initResource =
     (case initResource of Some r \<Rightarrow> r | None \<Rightarrow> fallback_resource)"

text \<open>
  Modelled from the spec: \<open>useDeepCompareMemoize\<close> is not part of the sources. The
  specification's normaliser hands back the previous reference when the new value is
  deep-equal to it and the new value otherwise, so the value it returns is always
  deep-equal to its argument, and its reference changes exactly when the value does.
  Descriptors are compared by value throughout this theory.
\<close>

definition useDeepCompareMemoize :: "watch_resource \<Rightarrow> watch_resource" where
  "useDeepCompareMemoize r = r"

text \<open>
  A subscription record of the shared store, an \<open>ImmutableMap<string, unknown>\<close>, as its
  entries; \<open>m.get(k)\<close> is \<open>undefined\<close> for a key that is not there.
\<close>

type_synonym immutable_map = "(string \<times> jsval) list"

definition get :: "immutable_map \<Rightarrow> string \<Rightarrow> jsval" where
  "get m k = (case map_of m k of Some v \<Rightarrow> v | None \<Rightarrow> JUndefined)"

text \<open>
  What the hook does to the world: actions handed to \<open>dispatch\<close>, and calls of
  \<open>fetchModel(resource, dispatch)\<close>. The action a watch request carries is built by
  \<open>getWatchData\<close> and is opaque to the hook; \<open>StopK8sWatch id\<close> is
  \<open>k8sActions.stopK8sWatch(id)\<close>.
\<close>

datatype redux_action = WatchAction string | StopK8sWatch string

datatype effect = Dispatch redux_action | FetchModel watch_resource

text \<open>The hook's return value \<open>[data, loaded, error]\<close>.\<close>

type_synonym watch_result = "jsval \<times> jsval \<times> jsval"

section \<open>The result computation of \<open>useK8sWatchResource\<close>\<close>

text \<open>
  The body of the final \<open>React.useMemo\<close> of the first variant of the hook (the one with
  the retry counter). \<open>getReduxData\<close> (from \<open>k8s-watcher\<close>) is not part of the sources
  and is a parameter. Beside the triple, the body's two side effects are returned: the
  call of \<open>fetchModel\<close>, and the value \<open>setRetries\<close> leaves in the state.
  \<open>!resource\<close> is always false, \<open>resource\<close> being an object.
\<close>

definition reconcile_retry ::
  "(jsval \<Rightarrow> watch_resource \<Rightarrow> jsval) \<Rightarrow> watch_resource \<Rightarrow> immutable_map option \<Rightarrow>
   'm option \<Rightarrow> jsval \<Rightarrow> jsval \<Rightarrow> nat \<Rightarrow> bool \<Rightarrow> watch_result \<times> effect list \<times> nat"
where
  "reconcile_retry getReduxData resource resourceK8s k8sModel inFlight batchesInFlight
       retries modelsLoaded =
     (if kind resource = NOT_A_VALUE then ((JUndefined, JBool True, JUndefined), [], retries)
      else case resourceK8s of
        None \<Rightarrow>
          (let data = (if isList resource then JArr [] else JObj []);
               fetch = (k8sModel = None \<and> \<not> truthy inFlight \<and> \<not> truthy batchesInFlight
                          \<and> retries < 3)
           in ((if modelsLoaded \<and> k8sModel = None \<and> \<not> truthy batchesInFlight
                then (data, JBool True, JNoModelError)
                else (data, JBool False, JUndefined)),
               (if fetch then [FetchModel resource] else []),
               (if fetch then retries + 1 else retries)))
      | Some m \<Rightarrow>
          ((getReduxData (get m ''data'') resource, get m ''loaded'', get m ''loadError''),
           [], retries))"

text \<open>
  The same body in the second variant (the one that takes a static model \<open>initModel\<close>):
  no retry, and \<open>undefined\<close> as the placeholder of a single resource.
\<close>

definition reconcile_static ::
  "(jsval \<Rightarrow> watch_resource \<Rightarrow> jsval) \<Rightarrow> watch_resource \<Rightarrow> immutable_map option \<Rightarrow>
   bool \<Rightarrow> 'm option \<Rightarrow> jsval \<Rightarrow> watch_result"
where
  "reconcile_static getReduxData resource resourceK8s modelsLoaded k8sModel batchesInFlight =
     (if kind resource = NOT_A_VALUE then (JUndefined, JBool True, JUndefined)
      else case resourceK8s of
        None \<Rightarrow>
          (let data = (if isList resource then JArr [] else JUndefined)
           in if modelsLoaded \<and> k8sModel = None \<and> \<not> truthy batchesInFlight
              then (data, JBool True, JNoModelError)
              else (data, JBool False, JUndefined))
      | Some m \<Rightarrow>
          (getReduxData (get m ''data'') resource, get m ''loaded'', get m ''loadError''))"

text \<open>
  The model resolution of the second variant:
  \<open>modelsLoaded = initModel ? true : storedModelsLoaded\<close> and
  \<open>k8sModel = initModel || storedK8sModel\<close>. A model is an object, hence truthy.
\<close>

definition resolve_model :: "'m option \<Rightarrow> 'm option \<Rightarrow> bool \<Rightarrow> 'm option \<times> bool" where
  "resolve_model initModel storedK8sModel storedModelsLoaded =
     ((case initModel of Some m \<Rightarrow> Some m | None \<Rightarrow> storedK8sModel),
      (case initModel of Some m \<Rightarrow> True | None \<Rightarrow> storedModelsLoaded))"

section \<open>The default list filter\<close>

text \<open>
  Strings are sequences of code units below 256 (Latin-1). On these,
  \<open>String.prototype.toLowerCase\<close> moves \<open>A\<close>-\<open>Z\<close> and the accented capitals
  \<open>U+00C0\<close>-\<open>U+00DE\<close> (without the multiplication sign \<open>U+00D7\<close>) up by 32 and leaves
  every other code unit alone.
\<close>

definition is_upper :: "char \<Rightarrow> bool" where
  "is_upper c =
     (let n = (of_char c :: nat)
      in (65 \<le> n \<and> n \<le> 90) \<or> (192 \<le> n \<and> n \<le> 222 \<and> n \<noteq> 215))"

definition lower_char :: "char \<Rightarrow> char" where
  "lower_char c = (if is_upper c then char_of ((of_char c :: nat) + 32) else c)"

definition toLowerCase :: "string \<Rightarrow> string" where
  "toLowerCase s = map lower_char s"

text \<open>\<open>s.includes(v)\<close>: \<open>v\<close> occurs in \<open>s\<close> as a contiguous substring.\<close>

fun includes_str :: "string \<Rightarrow> string \<Rightarrow> bool" where
  "includes_str [] v = (v = [])"
| "includes_str (c # s) v = (take (length v) (c # s) = v \<or> includes_str s v)"

text \<open>
  An item is a \<open>Record<string, unknown>\<close>; \<open>item[key]\<close> is \<open>undefined\<close> for a key it
  does not have. \<open>filterValues\<close> is read through \<open>Object.entries\<close>, a list of pairs.
\<close>

type_synonym item = "(string \<times> jsval) list"

definition item_get :: "item \<Rightarrow> string \<Rightarrow> jsval" where
  "item_get item key = (case map_of item key of Some v \<Rightarrow> v | None \<Rightarrow> JUndefined)"

text \<open>
  The inner predicate on one entry:
  \<open>typeof item[key] === 'string' && values.every((v) => item[key].toLowerCase().includes(v))\<close>
\<close>

definition entry_matches :: "item \<Rightarrow> string \<times> string list \<Rightarrow> bool" where
  "entry_matches item entry =
     (case item_get item (fst entry) of
        JStr s \<Rightarrow> list_all (\<lambda>v. includes_str (toLowerCase s) v) (snd entry)
      | _ \<Rightarrow> False)"

definition filterDefault :: "item list \<Rightarrow> (string \<times> string list) list \<Rightarrow> item list" where
  "filterDefault data filterValues =
     filter (\<lambda>item. list_all (entry_matches item) filterValues) data"

section \<open>The hook as a state machine\<close>

text \<open>
  React keeps, for one mounted component, the state of \<open>useState\<close>, the cache of every
  \<open>useMemo\<close> and the dependencies and clean-up of every \<open>useEffect\<close>. A render pass
  reads the props, the context and the store, calls the hooks in order, and may change
  the state; the commit that follows runs the effect when its dependencies differ from
  those of the effect that is mounted, after that one's clean-up; unmounting runs the
  clean-up. Dependencies are compared with \<open>Object.is\<close>. A model and an options object
  are values of the type variables \<open>'m\<close> and \<open>'o\<close>, whose equality stands for object
  identity; \<open>dispatch\<close> is identified by a number.
\<close>

text \<open>
  The watch request \<open>{ id, action }\<close> that \<open>getWatchData\<close> builds. \<open>getWatchData\<close> is
  not part of the sources and is a parameter of the hook, giving the identifier and the
  action of the request, or nothing. Each call builds a new object: \<open>wd_ref\<close> is its
  identity, drawn from a counter of the component.
\<close>

record watch_data =
  wd_ref :: nat
  wd_id :: string
  wd_action :: redux_action

text \<open>The argument of \<open>useK8sModel\<close>: \<open>resource.groupVersionKind || resource.kind\<close>.\<close>

datatype model_reference = ByGroupVersionKind "string \<times> string \<times> string" | ByKind string

definition model_reference_of :: "watch_resource \<Rightarrow> model_reference" where
  "model_reference_of resource =
     (case groupVersionKind resource of
        Some gvk \<Rightarrow> ByGroupVersionKind gvk
      | None \<Rightarrow> ByKind (kind resource))"

text \<open>
  What one render pass reads: the props (\<open>initResource\<close>, \<open>initModel\<close> in the second
  variant, \<open>options\<close>), the active workspace of the workspace context, and the store:
  the model registry behind \<open>useK8sModel\<close>, the flag behind \<open>useModelsLoaded\<close>, the
  subscription records behind \<open>getReduxIdPayload\<close>, the two in-flight flags read with
  \<open>k8s?.getIn\<close> (any value, \<open>undefined\<close> without a \<open>k8s\<close> slice) and \<open>dispatch\<close>.
\<close>

record ('m, 'o) render_input =
  props_initResource :: "watch_resource option"
  props_initModel :: "'m option"
  props_options :: "'o option"
  ctx_activeWorkspace :: "string option"
  store_models :: "model_reference \<Rightarrow> 'm option"
  store_modelsLoaded :: bool
  store_payload :: "string \<Rightarrow> immutable_map option"
  store_inFlight :: jsval
  store_batchesInFlight :: jsval
  store_dispatch :: nat

text \<open>The dependency array \<open>[dispatch, watchData, workspace]\<close> of the effect.\<close>

type_synonym effect_deps = "nat \<times> watch_data option \<times> string option"

text \<open>
  The state of the first variant: the retry counter, the cache of the \<open>watchData\<close> memo
  (dependencies \<open>[k8sModel, resource, options]\<close>), the counter of watch requests built so
  far, the cache of the result memo (dependencies \<open>[resource, resourceK8s, k8sModel,
  inFlight, batchesInFlight, retries, modelsLoaded, dispatch]\<close>), the effect
  dependencies of the latest render pass, and those of the mounted effect.
\<close>

record ('m, 'o) hook_state =
  retries :: nat
  watchData_memo :: "(('m option \<times> watch_resource \<times> 'o option) \<times> watch_data option) option"
  watchData_count :: nat
  result_memo ::
    "((watch_resource \<times> immutable_map option \<times> 'm option \<times> jsval \<times> jsval \<times> nat \<times> bool \<times> nat)
      \<times> watch_result) option"
  rendered :: "effect_deps option"
  mounted :: "effect_deps option"

definition init_state :: "('m, 'o) hook_state" where
  "init_state =
     \<lparr>retries = 0, watchData_memo = None, watchData_count = 0, result_memo = None,
      rendered = None, mounted = None\<rparr>"

text \<open>
  \<open>React.useMemo(() => getWatchData(resource, k8sModel, options), [k8sModel, resource,
  options])\<close>: the cached request when the dependencies are those of the cache, a newly
  built one otherwise. Returns the request, the cache and the counter.
\<close>

definition watchData_useMemo ::
  "(watch_resource \<Rightarrow> 'm option \<Rightarrow> 'o option \<Rightarrow> (string \<times> redux_action) option) \<Rightarrow>
   'm option \<times> watch_resource \<times> 'o option \<Rightarrow>
   (('m option \<times> watch_resource \<times> 'o option) \<times> watch_data option) option \<Rightarrow> nat \<Rightarrow>
   watch_data option \<times> (('m option \<times> watch_resource \<times> 'o option) \<times> watch_data option) option
     \<times> nat"
where
  "watchData_useMemo getWatchData deps cache count =
     (let fresh =
        (case deps of (k8sModel, resource, options) \<Rightarrow>
           (case getWatchData resource k8sModel options of
              None \<Rightarrow> None
            | Some (i, a) \<Rightarrow> Some \<lparr>wd_ref = count, wd_id = i, wd_action = a\<rparr>))
      in case cache of
           None \<Rightarrow> (fresh, Some (deps, fresh), count + 1)
         | Some (d, w) \<Rightarrow>
             if d = deps then (w, cache, count) else (fresh, Some (deps, fresh), count + 1))"

text \<open>
  One render pass of the first variant: the statements of \<open>useK8sWatchResource\<close> from
  top to bottom. It returns the hook's result, the effects of the pass and the new state.
  The body of the result memo runs only when a dependency changed.
\<close>

definition render ::
  "(watch_resource \<Rightarrow> 'm option \<Rightarrow> 'o option \<Rightarrow> (string \<times> redux_action) option) \<Rightarrow>
   (jsval \<Rightarrow> watch_resource \<Rightarrow> jsval) \<Rightarrow>
   ('m, 'o) hook_state \<Rightarrow> ('m, 'o) render_input \<Rightarrow>
   watch_result \<times> effect list \<times> ('m, 'o) hook_state"
where
  "render getWatchData getReduxData s inp =
     (let workspace = ctx_activeWorkspace inp;
          resource = useDeepCompareMemoize (withFallback (props_initResource inp));
          modelsLoaded = store_modelsLoaded inp;
          k8sModel = store_models inp (model_reference_of resource);
          (watchData, wmemo, wcount) =
            watchData_useMemo getWatchData (k8sModel, resource, props_options inp)
              (watchData_memo s) (watchData_count s);
          dispatch = store_dispatch inp;
          resourceK8s = (case watchData of Some w \<Rightarrow> store_payload inp (wd_id w) | None \<Rightarrow> None);
          inFlight = store_inFlight inp;
          batchesInFlight = store_batchesInFlight inp;
          deps = (resource, resourceK8s, k8sModel, inFlight, batchesInFlight, retries s,
                  modelsLoaded, dispatch);
          s' = s\<lparr>watchData_memo := wmemo, watchData_count := wcount,
                 rendered := Some (dispatch, watchData, workspace)\<rparr>
      in case (case result_memo s of Some (d, r) \<Rightarrow> if d = deps then Some r else None
               | None \<Rightarrow> None) of
           Some r \<Rightarrow> (r, [], s')
         | None \<Rightarrow>
             (case reconcile_retry getReduxData resource resourceK8s k8sModel inFlight
                     batchesInFlight (retries s) modelsLoaded of
                (r, fx, n) \<Rightarrow> (r, fx, s'\<lparr>retries := n, result_memo := Some (deps, r)\<rparr>)))"

text \<open>
  The effect: its body dispatches the action of the watch request, if there is one; its
  clean-up dispatches \<open>stopK8sWatch\<close> for the request the effect was created with, if
  there was one, and, in the first variant, sets the retry counter to 0.
\<close>

definition effect_body :: "watch_data option \<Rightarrow> effect list" where
  "effect_body watchData =
     (case watchData of Some w \<Rightarrow> [Dispatch (wd_action w)] | None \<Rightarrow> [])"

definition effect_cleanup :: "watch_data option \<Rightarrow> effect list" where
  "effect_cleanup watchData =
     (case watchData of Some w \<Rightarrow> [Dispatch (StopK8sWatch (wd_id w))] | None \<Rightarrow> [])"


definition commit :: "('m, 'o) hook_state \<Rightarrow> effect list \<times> ('m, 'o) hook_state" where
  "commit s =
     (case rendered s of
        None \<Rightarrow> ([], s)
      | Some new \<Rightarrow>
          (case mounted s of
             None \<Rightarrow> (effect_body (fst (snd new)), s\<lparr>mounted := Some new\<rparr>)
           | Some old \<Rightarrow>
               if old = new then ([], s)
               else (effect_cleanup (fst (snd old)) @ effect_body (fst (snd new)),
                     s\<lparr>retries := 0, mounted := Some new\<rparr>)))"

text \<open>Unmounting runs the clean-up of the mounted effect and discards the component.\<close>

definition unmount :: "('m, 'o) hook_state \<Rightarrow> effect list \<times> ('m, 'o) hook_state" where
  "unmount s =
     (case mounted s of
        None \<Rightarrow> ([], init_state)
      | Some old \<Rightarrow> (effect_cleanup (fst (snd old)), init_state))"

datatype ('m, 'o) event = Render "('m, 'o) render_input" | Commit | Unmount

definition step ::
  "(watch_resource \<Rightarrow> 'm option \<Rightarrow> 'o option \<Rightarrow> (string \<times> redux_action) option) \<Rightarrow>
   (jsval \<Rightarrow> watch_resource \<Rightarrow> jsval) \<Rightarrow>
   ('m, 'o) hook_state \<Rightarrow> ('m, 'o) event \<Rightarrow> effect list \<times> ('m, 'o) hook_state"
where
  "step getWatchData getReduxData s ev =
     (case ev of
        Render inp \<Rightarrow> snd (render getWatchData getReduxData s inp)
      | Commit \<Rightarrow> commit s
      | Unmount \<Rightarrow> unmount s)"

text \<open>The effects and the final state of a sequence of events.\<close>

fun run ::
  "(watch_resource \<Rightarrow> 'm option \<Rightarrow> 'o option \<Rightarrow> (string \<times> redux_action) option) \<Rightarrow>
   (jsval \<Rightarrow> watch_resource \<Rightarrow> jsval) \<Rightarrow>
   ('m, 'o) hook_state \<Rightarrow> ('m, 'o) event list \<Rightarrow> effect list \<times> ('m, 'o) hook_state"
where
  "run getWatchData getReduxData s [] = ([], s)"
| "run getWatchData getReduxData s (ev # evs) =
     (case step getWatchData getReduxData s ev of
        (fx, s') \<Rightarrow>
          (case run getWatchData getReduxData s' evs of (fxs, s'') \<Rightarrow> (fx @ fxs, s'')))"




section \<open>The second variant of the hook\<close>

text \<open>
  The variant with a static model keeps no retry counter and reads no \<open>inFlight\<close>
  flag; its result memo depends on \<open>[resource, resourceK8s, modelsLoaded, k8sModel,
  batchesInFlight]\<close>.
\<close>

record ('m, 'o) static_state =
  watchData_memo_st ::
    "(('m option \<times> watch_resource \<times> 'o option) \<times> watch_data option) option"
  watchData_count_st :: nat
  result_memo_st ::
    "((watch_resource \<times> immutable_map option \<times> bool \<times> 'm option \<times> jsval) \<times> watch_result)
      option"
  rendered_st :: "effect_deps option"
  mounted_st :: "effect_deps option"

definition init_static :: "('m, 'o) static_state" where
  "init_static =
     \<lparr>watchData_memo_st = None, watchData_count_st = 0, result_memo_st = None,
      rendered_st = None, mounted_st = None\<rparr>"

definition render_static ::
  "(watch_resource \<Rightarrow> 'm option \<Rightarrow> 'o option \<Rightarrow> (string \<times> redux_action) option) \<Rightarrow>
   (jsval \<Rightarrow> watch_resource \<Rightarrow> jsval) \<Rightarrow>
   ('m, 'o) static_state \<Rightarrow> ('m, 'o) render_input \<Rightarrow>
   watch_result \<times> effect list \<times> ('m, 'o) static_state"
where
  "render_static getWatchData getReduxData s inp =
     (let workspace = ctx_activeWorkspace inp;
          resource = useDeepCompareMemoize (withFallback (props_initResource inp));
          (k8sModel, modelsLoaded) =
            resolve_model (props_initModel inp) (store_models inp (model_reference_of resource))
              (store_modelsLoaded inp);
          (watchData, wmemo, wcount) =
            watchData_useMemo getWatchData (k8sModel, resource, props_options inp)
              (watchData_memo_st s) (watchData_count_st s);
          dispatch = store_dispatch inp;
          resourceK8s = (case watchData of Some w \<Rightarrow> store_payload inp (wd_id w) | None \<Rightarrow> None);
          batchesInFlight = store_batchesInFlight inp;
          deps = (resource, resourceK8s, modelsLoaded, k8sModel, batchesInFlight);
          s' = s\<lparr>watchData_memo_st := wmemo, watchData_count_st := wcount,
                 rendered_st := Some (dispatch, watchData, workspace)\<rparr>
      in case (case result_memo_st s of Some (d, r) \<Rightarrow> if d = deps then Some r else None
               | None \<Rightarrow> None) of
           Some r \<Rightarrow> (r, [], s')
         | None \<Rightarrow>
             (let r = reconcile_static getReduxData resource resourceK8s modelsLoaded k8sModel
                        batchesInFlight
              in (r, [], s'\<lparr>result_memo_st := Some (deps, r)\<rparr>)))"

definition commit_static ::
  "('m, 'o) static_state \<Rightarrow> effect list \<times> ('m, 'o) static_state" where
  "commit_static s =
     (case rendered_st s of
        None \<Rightarrow> ([], s)
      | Some new \<Rightarrow>
          (case mounted_st s of
             None \<Rightarrow> (effect_body (fst (snd new)), s\<lparr>mounted_st := Some new\<rparr>)
           | Some old \<Rightarrow>
               if old = new then ([], s)
               else (effect_cleanup (fst (snd old)) @ effect_body (fst (snd new)),
                     s\<lparr>mounted_st := Some new\<rparr>)))"

definition unmount_static ::
  "('m, 'o) static_state \<Rightarrow> effect list \<times> ('m, 'o) static_state" where
  "unmount_static s =
     (case mounted_st s of
        None \<Rightarrow> ([], init_static)
      | Some old \<Rightarrow> (effect_cleanup (fst (snd old)), init_static))"

section \<open>The caches of the result memo\<close>

text \<open>
  A cache of the result memo is sound when the result it holds is the one the body
  computes from the dependencies it holds.
\<close>

definition memo_ok ::
  "(jsval \<Rightarrow> watch_resource \<Rightarrow> jsval) \<Rightarrow> ('m, 'o) hook_state \<Rightarrow> bool" where
  "memo_ok getReduxData s =
     (case result_memo s of
        None \<Rightarrow> True
      | Some ((resource, resourceK8s, k8sModel, inFlight, batchesInFlight, n, modelsLoaded,
               dispatch), r) \<Rightarrow>
          r = fst (reconcile_retry getReduxData resource resourceK8s k8sModel inFlight
                     batchesInFlight n modelsLoaded))"

definition memo_ok_static ::
  "(jsval \<Rightarrow> watch_resource \<Rightarrow> jsval) \<Rightarrow> ('m, 'o) static_state \<Rightarrow> bool" where
  "memo_ok_static getReduxData s =
     (case result_memo_st s of
        None \<Rightarrow> True
      | Some ((resource, resourceK8s, modelsLoaded, k8sModel, batchesInFlight), r) \<Rightarrow>
          r = reconcile_static getReduxData resource resourceK8s modelsLoaded k8sModel
                batchesInFlight)"

text \<open>The watch request and the subscription record a render pass works with.\<close>

definition watchData_of ::
  "(watch_resource \<Rightarrow> 'm option \<Rightarrow> 'o option \<Rightarrow> (string \<times> redux_action) option) \<Rightarrow>
   'm option \<Rightarrow> ('m, 'o) render_input \<Rightarrow>
   (('m option \<times> watch_resource \<times> 'o option) \<times> watch_data option) option \<Rightarrow> nat \<Rightarrow>
   watch_data option"
where
  "watchData_of getWatchData k8sModel inp cache count =
     fst (watchData_useMemo getWatchData
            (k8sModel, withFallback (props_initResource inp), props_options inp) cache count)"

definition resourceK8s_of :: "watch_data option \<Rightarrow> ('m, 'o) render_input \<Rightarrow> immutable_map option"
where
  "resourceK8s_of watchData inp =
     (case watchData of Some w \<Rightarrow> store_payload inp (wd_id w) | None \<Rightarrow> None)"

section \<open>The watch request and the scenarios\<close>

text \<open>
  Modelled from the spec: \<open>getWatchData\<close> (from \<open>k8s-watcher\<close>) is not part of the
  sources. The specification's \<open>deriveRequest\<close> returns no request when the descriptor
  is the sentinel or the model is absent, and otherwise a request whose identifier is a
  pure function of the descriptor, the model and the options; that function is the
  parameter \<open>request_id\<close>, and the request's action is named by the identifier.
\<close>

definition getWatchData ::
  "(watch_resource \<Rightarrow> 'm \<Rightarrow> 'o option \<Rightarrow> string) \<Rightarrow>
   watch_resource \<Rightarrow> 'm option \<Rightarrow> 'o option \<Rightarrow> (string \<times> redux_action) option"
where
  "getWatchData request_id resource k8sModel options =
     (if kind resource = NOT_A_VALUE then None
      else case k8sModel of
             None \<Rightarrow> None
           | Some m \<Rightarrow>
               Some (request_id resource m options, WatchAction (request_id resource m options)))"

text \<open>The components of a result \<open>[data, loaded, error]\<close>.\<close>

definition data_of :: "watch_result \<Rightarrow> jsval" where
  "data_of r = fst r"

definition loaded_of :: "watch_result \<Rightarrow> jsval" where
  "loaded_of r = fst (snd r)"

definition error_of :: "watch_result \<Rightarrow> jsval" where
  "error_of r = snd (snd r)"

text \<open>
  The resources of the specification's scenarios, \<open>{kind: 'Pod', isList: true}\<close> and
  \<open>{kind: 'Widget', isList: false}\<close>, and a render input for them: no options, an empty
  store (no model, no record, nothing in flight, models not all loaded). In the
  scenarios models and options are of type \<open>unit\<close>, a request is identified by the kind
  of its resource, and the payload of a record is handed back undecoded.
\<close>

definition pod :: watch_resource where
  "pod = \<lparr>kind = ''Pod'', groupVersionKind = None, isList = True, namespace = None,
           name = None\<rparr>"

definition widget :: watch_resource where
  "widget = \<lparr>kind = ''Widget'', groupVersionKind = None, isList = False, namespace = None,
              name = None\<rparr>"

definition empty_store :: "watch_resource \<Rightarrow> string option \<Rightarrow> (unit, unit) render_input" where
  "empty_store resource workspace =
     \<lparr>props_initResource = Some resource, props_initModel = None, props_options = None,
      ctx_activeWorkspace = workspace, store_models = (\<lambda>k. None),
      store_modelsLoaded = False, store_payload = (\<lambda>i. None),
      store_inFlight = JBool False, store_batchesInFlight = JBool False,
      store_dispatch = 0\<rparr>"

definition pod_store :: "string option \<Rightarrow> (unit, unit) render_input" where
  "pod_store workspace =
     (empty_store pod workspace)
       \<lparr>store_models := (\<lambda>k. if k = ByKind ''Pod'' then Some () else None)\<rparr>"

definition kind_id :: "watch_resource \<Rightarrow> unit \<Rightarrow> unit option \<Rightarrow> string" where
  "kind_id resource m options = kind resource"

definition raw_payload :: "jsval \<Rightarrow> watch_resource \<Rightarrow> jsval" where
  "raw_payload d resource = d"



text \<open>
  A mount that finds the model of \<open>pod\<close> on its second pass, one fetch late, and
  subscribes; and the same mount of the second variant. Then the state a missing model
  leaves when the workspace changes to \<open>tenant-b\<close>, before the commit.
\<close>

definition mounted_pod :: "(unit, unit) hook_state" where
  "mounted_pod =
     snd (run (getWatchData kind_id) raw_payload init_state
            [Render (empty_store pod None), Render (pod_store None), Commit])"

definition mounted_pod_static :: "(unit, unit) static_state" where
  "mounted_pod_static =
     snd (commit_static
            (snd (snd (render_static (getWatchData kind_id) raw_payload init_static
                         (pod_store None)))))"


text \<open>A record of a watch that failed before anything was loaded.\<close>

definition failed_record :: immutable_map where
  "failed_record = [(''data'', JArr []), (''loaded'', JBool False), (''loadError'', JStr ''boom'')]"

text \<open>A record of a loaded list.\<close>

definition loaded_record :: immutable_map where
  "loaded_record = [(''data'', JArr [JStr ''a'', JStr ''b'']), (''loaded'', JBool True)]"

section \<open>Properties of the result computation\<close>

lemma fallback_resource_kind: "kind fallback_resource = NOT_A_VALUE"
  by (simp add: fallback_resource_def)

lemma pod_kind: "kind pod \<noteq> NOT_A_VALUE"
  by (simp add: pod_def NOT_A_VALUE_def)

lemma widget_kind: "kind widget \<noteq> NOT_A_VALUE"
  by (simp add: widget_def NOT_A_VALUE_def)

text \<open>
  C1. For a descriptor that is not the sentinel and no subscription record: when all
  models are loaded, the model is absent and no batch fetch is in flight, the result is
  the placeholder, \<open>true\<close> and a \<open>NoModelError\<close>; otherwise it is the placeholder,
  \<open>false\<close> and \<open>undefined\<close>. Both variants.
\<close>

theorem no_record_result:
  "kind resource \<noteq> NOT_A_VALUE \<Longrightarrow>
     fst (reconcile_retry grd resource None model inFlight batches n ml)
       = (if ml \<and> model = None \<and> \<not> truthy batches
          then (if isList resource then JArr [] else JObj [], JBool True, JNoModelError)
          else (if isList resource then JArr [] else JObj [], JBool False, JUndefined))
     \<and> reconcile_static grd resource None ml model batches
       = (if ml \<and> model = None \<and> \<not> truthy batches
          then (if isList resource then JArr [] else JUndefined, JBool True, JNoModelError)
          else (if isList resource then JArr [] else JUndefined, JBool False, JUndefined))"
  by (simp add: reconcile_retry_def reconcile_static_def Let_def)

theorem no_record_result_witness:
  "kind widget \<noteq> NOT_A_VALUE
   \<and> fst (reconcile_retry raw_payload widget None (None :: unit option) JUndefined JUndefined 3
            True)
       = (JObj [], JBool True, JNoModelError)
   \<and> reconcile_static raw_payload widget None True (None :: unit option) JUndefined
       = (JUndefined, JBool True, JNoModelError)
   \<and> fst (reconcile_retry raw_payload pod None (None :: unit option) JUndefined JUndefined 0
            False)
       = (JArr [], JBool False, JUndefined)"
  using widget_kind
    no_record_result [OF widget_kind, of raw_payload "None :: unit option" JUndefined JUndefined
      3 True]
    no_record_result [OF pod_kind, of raw_payload "None :: unit option" JUndefined JUndefined
      0 False]
  by (simp add: widget_def pod_def)

text \<open>
  C2. For a descriptor that is not the sentinel and a subscription record, the result is
  the decoded data of the record with the record's own \<open>loaded\<close> and \<open>loadError\<close>,
  whatever the retry counter, the model, the in-flight flags and the models-loaded flag
  are; no fetch is issued and the counter stays. Both variants.
\<close>

theorem record_result:
  "kind resource \<noteq> NOT_A_VALUE \<Longrightarrow>
     reconcile_retry grd resource (Some m) model inFlight batches n ml
       = ((grd (get m ''data'') resource, get m ''loaded'', get m ''loadError''), [], n)
     \<and> reconcile_static grd resource (Some m) ml model batches
       = (grd (get m ''data'') resource, get m ''loaded'', get m ''loadError'')"
  by (simp add: reconcile_retry_def reconcile_static_def)

theorem record_result_witness:
  "kind pod \<noteq> NOT_A_VALUE
   \<and> reconcile_retry raw_payload pod (Some loaded_record) (None :: unit option) (JBool False)
        (JBool False) 0 True
       = ((JArr [JStr ''a'', JStr ''b''], JBool True, JUndefined), [], 0)
   \<and> reconcile_static raw_payload pod (Some loaded_record) True (None :: unit option)
        (JBool False)
       = (JArr [JStr ''a'', JStr ''b''], JBool True, JUndefined)"
  using pod_kind
    record_result [OF pod_kind, of raw_payload loaded_record "None :: unit option" "JBool False"
      "JBool False" 0 True]
  by (simp add: loaded_record_def get_def raw_payload_def)

text \<open>
  C3. For the sentinel descriptor, and so when the caller passed \<open>null\<close>, both variants
  return \<open>(undefined, true, undefined)\<close> whatever the model, the subscription record, the
  in-flight flags, the retry counter and the models-loaded flag are; the first variant
  issues no fetch and leaves the counter alone.
\<close>

theorem sentinel_result:
  "(kind resource = NOT_A_VALUE \<longrightarrow>
      reconcile_retry grd resource rk8s model inFlight batches n ml
        = ((JUndefined, JBool True, JUndefined), [], n)
      \<and> reconcile_static grd resource rk8s ml model batches
        = (JUndefined, JBool True, JUndefined))
   \<and> reconcile_retry grd (useDeepCompareMemoize (withFallback None)) rk8s model inFlight
        batches n ml
        = ((JUndefined, JBool True, JUndefined), [], n)
   \<and> reconcile_static grd (useDeepCompareMemoize (withFallback None)) rk8s ml model batches
        = (JUndefined, JBool True, JUndefined)"
  by (simp add: reconcile_retry_def reconcile_static_def useDeepCompareMemoize_def
      withFallback_def fallback_resource_kind)

theorem sentinel_result_witness:
  "kind fallback_resource = NOT_A_VALUE
   \<and> reconcile_retry raw_payload fallback_resource (Some failed_record) (Some ()) (JBool True)
        (JBool True) 2 True
       = ((JUndefined, JBool True, JUndefined), [], 2)
   \<and> reconcile_static raw_payload fallback_resource (Some failed_record) True (Some ())
        (JBool True)
       = (JUndefined, JBool True, JUndefined)"
  using fallback_resource_kind
    sentinel_result [of fallback_resource raw_payload "Some failed_record" "Some ()" "JBool True"
      "JBool True" 2 True]
  by simp

text \<open>
  C5, as the claim states it, fails: a record that the store holds with \<open>loaded\<close> false
  and a \<open>loadError\<close> is handed on as it is, so the result has \<open>loaded === false\<close> and
  an error. Both variants.
\<close>

theorem loaded_false_with_error:
  "loaded_of (fst (reconcile_retry raw_payload pod (Some failed_record) (Some ()) JUndefined
                     JUndefined 0 True)) = JBool False
   \<and> error_of (fst (reconcile_retry raw_payload pod (Some failed_record) (Some ()) JUndefined
                       JUndefined 0 True)) \<noteq> JUndefined
   \<and> loaded_of (reconcile_static raw_payload pod (Some failed_record) True (Some ())
                  JUndefined) = JBool False
   \<and> error_of (reconcile_static raw_payload pod (Some failed_record) True (Some ())
                 JUndefined) \<noteq> JUndefined"
  by (simp add: reconcile_retry_def reconcile_static_def pod_kind failed_record_def get_def
      loaded_of_def error_of_def)

text \<open>
  C5, amended. A result with \<open>loaded === false\<close> has \<open>error === undefined\<close> whenever
  the descriptor is the sentinel, or there is no subscription record, or the record
  itself has no \<open>loadError\<close> while its \<open>loaded\<close> is false. Both variants.
\<close>

theorem loaded_false_no_error:
  assumes "kind resource = NOT_A_VALUE \<or> rk8s = None
           \<or> (\<exists>m. rk8s = Some m
                  \<and> (get m ''loaded'' = JBool False \<longrightarrow> get m ''loadError'' = JUndefined))"
  shows "(loaded_of (fst (reconcile_retry grd resource rk8s model inFlight batches n ml))
            = JBool False
          \<longrightarrow> error_of (fst (reconcile_retry grd resource rk8s model inFlight batches n ml))
            = JUndefined)
       \<and> (loaded_of (reconcile_static grd resource rk8s ml model batches) = JBool False
          \<longrightarrow> error_of (reconcile_static grd resource rk8s ml model batches) = JUndefined)"
  using assms
  by (auto simp: reconcile_retry_def reconcile_static_def Let_def loaded_of_def error_of_def
      split: if_splits)

theorem loaded_false_no_error_witness:
  "loaded_of (fst (reconcile_retry raw_payload pod None (None :: unit option) JUndefined
                     JUndefined 0 False)) = JBool False
   \<and> error_of (fst (reconcile_retry raw_payload pod None (None :: unit option) JUndefined
                       JUndefined 0 False)) = JUndefined
   \<and> loaded_of (reconcile_static raw_payload pod None False (None :: unit option) JUndefined)
       = JBool False
   \<and> error_of (reconcile_static raw_payload pod None False (None :: unit option) JUndefined)
       = JUndefined"
proof -
  have l1: "loaded_of (fst (reconcile_retry raw_payload pod None (None :: unit option)
                JUndefined JUndefined 0 False)) = JBool False"
    by (simp add: reconcile_retry_def pod_kind loaded_of_def)
  have l2: "loaded_of (reconcile_static raw_payload pod None False (None :: unit option)
                JUndefined) = JBool False"
    by (simp add: reconcile_static_def pod_kind loaded_of_def)
  have h: "kind pod = NOT_A_VALUE \<or> (None :: immutable_map option) = None
           \<or> (\<exists>m. (None :: immutable_map option) = Some m
                  \<and> (get m ''loaded'' = JBool False \<longrightarrow> get m ''loadError'' = JUndefined))"
    by simp
  show ?thesis
    using l1 l2
      loaded_false_no_error [OF h, of raw_payload "None :: unit option" JUndefined JUndefined
        0 False]
    by simp
qed

text \<open>
  C6. In the variant that takes one, a static model is the resolved model, whatever the
  registry holds, and all models count as loaded, whatever the registry says.
\<close>

theorem static_model_resolved:
  "resolve_model (Some m) storedK8sModel storedModelsLoaded = (Some m, True)"
  by (simp add: resolve_model_def)

text \<open>
  C8. For a descriptor that is not the sentinel and no subscription record, the data of
  the result is the empty array for a list; for a single resource it is the empty object
  in the first variant and \<open>undefined\<close> in the second.
\<close>

theorem placeholder_data:
  "kind resource \<noteq> NOT_A_VALUE \<Longrightarrow>
     data_of (fst (reconcile_retry grd resource None model inFlight batches n ml))
       = (if isList resource then JArr [] else JObj [])
     \<and> data_of (reconcile_static grd resource None ml model batches)
       = (if isList resource then JArr [] else JUndefined)"
  by (simp add: reconcile_retry_def reconcile_static_def Let_def data_of_def)

theorem placeholder_data_witness:
  "kind pod \<noteq> NOT_A_VALUE \<and> kind widget \<noteq> NOT_A_VALUE
   \<and> data_of (fst (reconcile_retry raw_payload pod None (Some ()) JNull JNull 1 True))
       = JArr []
   \<and> data_of (fst (reconcile_retry raw_payload widget None (Some ()) JNull JNull 1 True))
       = JObj []
   \<and> data_of (reconcile_static raw_payload pod None True (Some ()) JNull) = JArr []
   \<and> data_of (reconcile_static raw_payload widget None True (Some ()) JNull) = JUndefined"
  using pod_kind widget_kind
    placeholder_data [OF pod_kind, of raw_payload "Some ()" JNull JNull 1 True]
    placeholder_data [OF widget_kind, of raw_payload "Some ()" JNull JNull 1 True]
  by (simp add: pod_def widget_def)

section \<open>The hook returns what its result computation gives\<close>

lemma init_memo_ok: "memo_ok grd init_state" "memo_ok_static grd init_static"
  by (simp_all add: memo_ok_def memo_ok_static_def init_state_def init_static_def)

lemma render_result:
  assumes "memo_ok grd s"
  shows "fst (render gw grd s inp)
     = fst (reconcile_retry grd (withFallback (props_initResource inp))
         (resourceK8s_of
            (watchData_of gw
               (store_models inp (model_reference_of (withFallback (props_initResource inp))))
               inp (watchData_memo s) (watchData_count s))
            inp)
         (store_models inp (model_reference_of (withFallback (props_initResource inp))))
         (store_inFlight inp) (store_batchesInFlight inp) (retries s) (store_modelsLoaded inp))
     \<and> memo_ok grd (snd (snd (render gw grd s inp)))"
  using assms
  by (auto simp: render_def memo_ok_def Let_def useDeepCompareMemoize_def watchData_of_def
      resourceK8s_of_def split: prod.splits option.splits if_splits)

lemma render_static_result:
  assumes "memo_ok_static grd t"
  shows "fst (render_static gw grd t inp)
     = reconcile_static grd (withFallback (props_initResource inp))
         (resourceK8s_of
            (watchData_of gw
               (fst (resolve_model (props_initModel inp)
                  (store_models inp (model_reference_of (withFallback (props_initResource inp))))
                  (store_modelsLoaded inp)))
               inp (watchData_memo_st t) (watchData_count_st t))
            inp)
         (snd (resolve_model (props_initModel inp)
            (store_models inp (model_reference_of (withFallback (props_initResource inp))))
            (store_modelsLoaded inp)))
         (fst (resolve_model (props_initModel inp)
            (store_models inp (model_reference_of (withFallback (props_initResource inp))))
            (store_modelsLoaded inp)))
         (store_batchesInFlight inp)
     \<and> memo_ok_static grd (snd (snd (render_static gw grd t inp)))"
  using assms
  by (auto simp: render_static_def memo_ok_static_def Let_def useDeepCompareMemoize_def
      watchData_of_def resourceK8s_of_def split: prod.splits option.splits if_splits)

lemma step_memo_ok: "memo_ok grd s \<Longrightarrow> memo_ok grd (snd (step gw grd s ev))"
proof (cases ev)
  case (Render inp)
  assume "memo_ok grd s"
  from render_result [OF this, of gw inp] Render show ?thesis by (simp add: step_def)
next
  case Commit
  assume "memo_ok grd s"
  with Commit show ?thesis
    by (auto simp: step_def commit_def memo_ok_def split: option.splits)
next
  case Unmount
  then show ?thesis
    by (simp add: step_def unmount_def init_memo_ok split: option.splits)
qed

lemma run_memo_ok: "memo_ok grd s \<Longrightarrow> memo_ok grd (snd (run gw grd s evs))"
proof (induction evs arbitrary: s)
  case Nil
  then show ?case by simp
next
  case (Cons ev evs)
  from Cons.prems have "memo_ok grd (snd (step gw grd s ev))" by (rule step_memo_ok)
  from Cons.IH [OF this] show ?case by (auto split: prod.splits)
qed

section \<open>Properties of the list filter\<close>

text \<open>
  C9. With no filter values \<open>filterDefault\<close> returns its data unchanged, and for any
  filter values its result is a subsequence of the data: items of the data, in the order
  of the data.
\<close>

theorem filterDefault_subseq:
  "filterDefault data [] = data \<and> subseq (filterDefault data filterValues) data"
  by (simp add: filterDefault_def)







section \<open>Properties of the hook's life cycle\<close>



lemma render_effect_state:
  assumes "render gw grd s inp = (r, fx, s')"
  shows "mounted s' = mounted s \<and>
     (\<exists>w. rendered s' = Some (store_dispatch inp, w, ctx_activeWorkspace inp))"
  using assms
  by (auto simp: render_def Let_def split: prod.splits option.splits if_splits)

lemma render_static_effect_state:
  assumes "render_static gw grd t inp = (r, fx, t')"
  shows "mounted_st t' = mounted_st t \<and>
     (\<exists>w. rendered_st t' = Some (store_dispatch inp, w, ctx_activeWorkspace inp))"
  using assms
  by (auto simp: render_static_def Let_def split: prod.splits option.splits if_splits)












text \<open>
  C7. When a render pass reads a workspace other than the one the mounted effect was
  created with, while that effect holds a watch request and the pass derives one, the
  commit dispatches \<open>stopK8sWatch\<close> for the request of the mounted effect and then the
  action of the derived request; in the first variant it also sets the retry counter
  to 0. The second variant has no retry counter.
\<close>

theorem workspace_change_resubscribes:
  "(mounted s = Some (d, Some w, ws) \<and> ctx_activeWorkspace inp \<noteq> ws
      \<and> render gw grd s inp = (res, fx, sr) \<and> rendered sr = Some (d', Some w', ws')
    \<longrightarrow> commit sr
          = ([Dispatch (StopK8sWatch (wd_id w)), Dispatch (wd_action w')],
             sr\<lparr>retries := 0, mounted := Some (d', Some w', ws')\<rparr>))
   \<and> (mounted_st t = Some (d, Some w, ws) \<and> ctx_activeWorkspace inp \<noteq> ws
      \<and> render_static gw grd t inp = (res', fx', tr)
      \<and> rendered_st tr = Some (d', Some w', ws')
    \<longrightarrow> commit_static tr
          = ([Dispatch (StopK8sWatch (wd_id w)), Dispatch (wd_action w')],
             tr\<lparr>mounted_st := Some (d', Some w', ws')\<rparr>))"
proof (intro conjI impI)
  assume a: "mounted s = Some (d, Some w, ws) \<and> ctx_activeWorkspace inp \<noteq> ws
      \<and> render gw grd s inp = (res, fx, sr) \<and> rendered sr = Some (d', Some w', ws')"
  then have rd: "render gw grd s inp = (res, fx, sr)" by simp
  from render_effect_state [OF rd] a
  have m: "mounted sr = Some (d, Some w, ws)" and w: "ws' = ctx_activeWorkspace inp"
    by auto
  with a have "ws' \<noteq> ws" by simp
  with a m show "commit sr
          = ([Dispatch (StopK8sWatch (wd_id w)), Dispatch (wd_action w')],
             sr\<lparr>retries := 0, mounted := Some (d', Some w', ws')\<rparr>)"
    by (simp add: commit_def effect_cleanup_def effect_body_def)
next
  assume a: "mounted_st t = Some (d, Some w, ws) \<and> ctx_activeWorkspace inp \<noteq> ws
      \<and> render_static gw grd t inp = (res', fx', tr)
      \<and> rendered_st tr = Some (d', Some w', ws')"
  then have rd: "render_static gw grd t inp = (res', fx', tr)" by simp
  from render_static_effect_state [OF rd] a
  have m: "mounted_st tr = Some (d, Some w, ws)" and w: "ws' = ctx_activeWorkspace inp"
    by auto
  with a have "ws' \<noteq> ws" by simp
  with a m show "commit_static tr
          = ([Dispatch (StopK8sWatch (wd_id w)), Dispatch (wd_action w')],
             tr\<lparr>mounted_st := Some (d', Some w', ws')\<rparr>)"
    by (simp add: commit_static_def effect_cleanup_def effect_body_def)
qed

theorem workspace_change_resubscribes_witness:
  "retries mounted_pod = 1
   \<and> fst (commit (snd (snd (render (getWatchData kind_id) raw_payload mounted_pod
                               (pod_store (Some ''tenant-b''))))))
       = [Dispatch (StopK8sWatch ''Pod''), Dispatch (WatchAction ''Pod'')]
   \<and> retries (snd (commit (snd (snd (render (getWatchData kind_id) raw_payload mounted_pod
                                        (pod_store (Some ''tenant-b''))))))) = 0
   \<and> fst (commit_static (snd (snd (render_static (getWatchData kind_id) raw_payload
                                      mounted_pod_static (pod_store (Some ''tenant-b''))))))
       = [Dispatch (StopK8sWatch ''Pod''), Dispatch (WatchAction ''Pod'')]"
proof -
  define s1 where
    "s1 = snd (snd (render (getWatchData kind_id) raw_payload mounted_pod
                      (pod_store (Some ''tenant-b''))))"
  define t1 where
    "t1 = snd (snd (render_static (getWatchData kind_id) raw_payload mounted_pod_static
                      (pod_store (Some ''tenant-b''))))"
  have r: "retries mounted_pod = 1"
    by code_simp
  have m: "mounted mounted_pod
             = Some (0, Some \<lparr>wd_ref = 1, wd_id = ''Pod'', wd_action = WatchAction ''Pod''\<rparr>,
                     None)"
    by code_simp
  have mt: "mounted_st mounted_pod_static
             = Some (0, Some \<lparr>wd_ref = 0, wd_id = ''Pod'', wd_action = WatchAction ''Pod''\<rparr>,
                     None)"
    by code_simp
  have ws: "ctx_activeWorkspace (pod_store (Some ''tenant-b'')) \<noteq> None"
    by (simp add: pod_store_def empty_store_def)
  have rd: "render (getWatchData kind_id) raw_payload mounted_pod
              (pod_store (Some ''tenant-b''))
            = (fst (render (getWatchData kind_id) raw_payload mounted_pod
                      (pod_store (Some ''tenant-b''))),
               fst (snd (render (getWatchData kind_id) raw_payload mounted_pod
                           (pod_store (Some ''tenant-b'')))),
               s1)"
    by (simp add: s1_def)
  have rdt: "render_static (getWatchData kind_id) raw_payload mounted_pod_static
              (pod_store (Some ''tenant-b''))
            = (fst (render_static (getWatchData kind_id) raw_payload mounted_pod_static
                      (pod_store (Some ''tenant-b''))),
               fst (snd (render_static (getWatchData kind_id) raw_payload mounted_pod_static
                           (pod_store (Some ''tenant-b'')))),
               t1)"
    by (simp add: t1_def)
  have rn: "rendered s1
             = Some (0, Some \<lparr>wd_ref = 1, wd_id = ''Pod'', wd_action = WatchAction ''Pod''\<rparr>,
                     Some ''tenant-b'')"
    unfolding s1_def by code_simp
  have rnt: "rendered_st t1
             = Some (0, Some \<lparr>wd_ref = 0, wd_id = ''Pod'', wd_action = WatchAction ''Pod''\<rparr>,
                     Some ''tenant-b'')"
    unfolding t1_def by code_simp
  note th = workspace_change_resubscribes [where s = mounted_pod and t = mounted_pod_static
      and inp = "pod_store (Some ''tenant-b'')" and gw = "getWatchData kind_id"
      and grd = raw_payload and sr = s1 and tr = t1 and ws = None
      and ws' = "Some ''tenant-b''" and d = 0 and d' = 0
      and res = "fst (render (getWatchData kind_id) raw_payload mounted_pod
                        (pod_store (Some ''tenant-b'')))"
      and fx = "fst (snd (render (getWatchData kind_id) raw_payload mounted_pod
                            (pod_store (Some ''tenant-b''))))"
      and res' = "fst (render_static (getWatchData kind_id) raw_payload mounted_pod_static
                        (pod_store (Some ''tenant-b'')))"
      and fx' = "fst (snd (render_static (getWatchData kind_id) raw_payload
                             mounted_pod_static (pod_store (Some ''tenant-b''))))"]
  from th [where w = "\<lparr>wd_ref = 1, wd_id = ''Pod'', wd_action = WatchAction ''Pod''\<rparr>"
      and w' = "\<lparr>wd_ref = 1, wd_id = ''Pod'', wd_action = WatchAction ''Pod''\<rparr>"]
    m ws rd rn
  have c: "commit s1
          = ([Dispatch (StopK8sWatch ''Pod''), Dispatch (WatchAction ''Pod'')],
             s1\<lparr>retries := 0,
                mounted := Some (0, Some \<lparr>wd_ref = 1, wd_id = ''Pod'',
                                          wd_action = WatchAction ''Pod''\<rparr>,
                                 Some ''tenant-b'')\<rparr>)"
    by simp
  from th [where w = "\<lparr>wd_ref = 0, wd_id = ''Pod'', wd_action = WatchAction ''Pod''\<rparr>"
      and w' = "\<lparr>wd_ref = 0, wd_id = ''Pod'', wd_action = WatchAction ''Pod''\<rparr>"]
    mt ws rdt rnt
  have ct: "commit_static t1
          = ([Dispatch (StopK8sWatch ''Pod''), Dispatch (WatchAction ''Pod'')],
             t1\<lparr>mounted_st := Some (0, Some \<lparr>wd_ref = 0, wd_id = ''Pod'',
                                             wd_action = WatchAction ''Pod''\<rparr>,
                                    Some ''tenant-b'')\<rparr>)"
    by simp
  from c have c1: "fst (commit s1)
      = [Dispatch (StopK8sWatch ''Pod''), Dispatch (WatchAction ''Pod'')]"
    and c2: "retries (snd (commit s1)) = 0"
    by simp_all
  from ct have c3: "fst (commit_static t1)
      = [Dispatch (StopK8sWatch ''Pod''), Dispatch (WatchAction ''Pod'')]"
    by simp
  from r c1 c2 c3 show ?thesis
    unfolding s1_def t1_def by blast
qed

end
